theory Spec2Isabelle
  imports
    Complex_Main
    "HOL-Library.Char_ord"
    "HOL-Library.List_Lexorder"
    "HOL-Library.Product_Lexorder"
    "HOL-Library.Multiset"
begin

section \<open>Strings as Python sees them (ASCII)\<close>

text \<open>
  The strings of the pipeline are modelled as \<^typ>\<open>string\<close>, a character being a
  code point below 256: \<open>str.lower\<close> maps \<open>A..Z\<close> to \<open>a..z\<close> and leaves every
  other ASCII character alone, \<open>x in s\<close> is the test for a contiguous substring, and
  \<open>str.strip\<close> removes from both ends the characters that Python counts as whitespace
  (codes 9 to 13, 28 to 32, 133 and 160).
\<close>

definition lower_char :: "char \<Rightarrow> char" where
  "lower_char c =
     (if CHR ''A'' \<le> c \<and> c \<le> CHR ''Z'' then char_of (of_char c + (32::nat)) else c)"

definition lower :: "string \<Rightarrow> string" where
  "lower s = map lower_char s"

definition is_space :: "char \<Rightarrow> bool" where
  "is_space c =
     (let n = (of_char c :: nat)
      in (9 \<le> n \<and> n \<le> 13) \<or> (28 \<le> n \<and> n \<le> 32) \<or> n = 133 \<or> n = 160)"

definition strip :: "string \<Rightarrow> string" where
  "strip s = rev (dropWhile is_space (rev (dropWhile is_space s)))"

fun starts_with :: "string \<Rightarrow> string \<Rightarrow> bool" where
  "starts_with [] s = True"
| "starts_with (p # ps) [] = False"
| "starts_with (p # ps) (c # cs) = (p = c \<and> starts_with ps cs)"

fun contains :: "string \<Rightarrow> string \<Rightarrow> bool" where
  "contains sub [] = (sub = [])"
| "contains sub (c # cs) = (starts_with sub (c # cs) \<or> contains sub cs)"

definition is_digit :: "char \<Rightarrow> bool" where
  "is_digit c = (CHR ''0'' \<le> c \<and> c \<le> CHR ''9'')"

definition digit_val :: "char \<Rightarrow> nat" where
  "digit_val c = of_char c - 48"

definition nat_of_digits :: "string \<Rightarrow> nat" where
  "nat_of_digits ds = foldl (\<lambda>a d. 10 * a + digit_val d) 0 ds"

fun digits_of :: "nat \<Rightarrow> string" where
  "digits_of n =
     (if n < 10 then [char_of (48 + n)] else digits_of (n div 10) @ [char_of (48 + n mod 10)])"

definition str_of_int :: "int \<Rightarrow> string" where
  "str_of_int i = (if i < 0 then CHR ''-'' # digits_of (nat (- i)) else digits_of (nat i))"

section \<open>Category classifier\<close>

text \<open>
  \<open>map_category\<close> of \<open>data_loader.py\<close>: the argument is lower-cased and the keyword
  groups are tried in the order of the source; the first group with a keyword that occurs
  in the text decides.
\<close>

definition map_category :: "string \<Rightarrow> string" where
  "map_category x =
     (let s = lower x in
      if contains ''two'' s \<or> contains ''2w'' s then ''2W''
      else if contains ''three'' s \<or> contains ''3w'' s \<or> contains ''auto'' s then ''3W''
      else if contains ''four'' s \<or> contains ''4w'' s \<or> contains ''car'' s \<or> contains ''jeep'' s
        then ''4W''
      else ''OTHER'')"

text \<open>
  The classifier as the specification words it: a keyword is contained in the lower-cased
  text when the text splits into a part before the keyword, the keyword, and a part after.
\<close>

definition occurs_in :: "string \<Rightarrow> string \<Rightarrow> bool" where
  "occurs_in w s \<longleftrightarrow> (\<exists>pre post. s = pre @ w @ post)"

definition classifier_spec :: "string \<Rightarrow> string" where
  "classifier_spec x =
     (if occurs_in ''two'' (lower x) \<or> occurs_in ''2w'' (lower x) then ''2W''
      else if occurs_in ''three'' (lower x) \<or> occurs_in ''3w'' (lower x)
              \<or> occurs_in ''auto'' (lower x) then ''3W''
      else if occurs_in ''four'' (lower x) \<or> occurs_in ''4w'' (lower x)
              \<or> occurs_in ''car'' (lower x) \<or> occurs_in ''jeep'' (lower x) then ''4W''
      else ''OTHER'')"

section \<open>Tables, timestamps and numbers\<close>

text \<open>
  A pandas data frame is a list of column names together with its rows. A field of a row
  whose column is not among the names is not part of the frame. \<open>df.empty\<close> holds when
  one of the two axes has length zero.
\<close>

record 'r frame =
  cols :: "string list"
  rows :: "'r list"

definition frame_empty :: "'r frame \<Rightarrow> bool" where
  "frame_empty df \<longleftrightarrow> rows df = [] \<or> cols df = []"

datatype error = ValueError | KeyError | TypeError | FileNotFoundError

text \<open>
  A timestamp is (year, month, day, nanosecond of the day); the lexicographic order of the
  tuple is the order of time. \<open>NaT\<close> is \<open>None\<close>. \<open>to_period(f).to_timestamp()\<close>
  moves a timestamp to the start of its month, quarter or year.
\<close>

type_synonym timestamp = "int \<times> nat \<times> nat \<times> nat"

definition floor_month :: "timestamp \<Rightarrow> timestamp" where
  "floor_month t = (case t of (y, m, d, n) \<Rightarrow> (y, m, 1, 0))"

definition floor_quarter :: "timestamp \<Rightarrow> timestamp" where
  "floor_quarter t = (case t of (y, m, d, n) \<Rightarrow> (y, 3 * ((m - 1) div 3) + 1, 1, 0))"

definition floor_year :: "timestamp \<Rightarrow> timestamp" where
  "floor_year t = (case t of (y, m, d, n) \<Rightarrow> (y, 1, 1, 0))"

text \<open>
  A float cell that may be missing or infinite. Finite values are exact rationals: rounding
  and the sign of zero are not modelled. pandas keeps a null of a float column as \<open>NaN\<close>.
\<close>

datatype fval = NaN | PInf | NInf | Fin rat

fun fdiv :: "fval \<Rightarrow> fval \<Rightarrow> fval" where
  "fdiv (Fin a) (Fin b) =
     (if b \<noteq> 0 then Fin (a / b) else if 0 < a then PInf else if a < 0 then NInf else NaN)"
| "fdiv (Fin a) PInf = Fin 0"
| "fdiv (Fin a) NInf = Fin 0"
| "fdiv PInf (Fin b) = (if 0 \<le> b then PInf else NInf)"
| "fdiv NInf (Fin b) = (if 0 \<le> b then NInf else PInf)"
| "fdiv a b = NaN"

fun fsub :: "fval \<Rightarrow> rat \<Rightarrow> fval" where
  "fsub (Fin a) c = Fin (a - c)"
| "fsub v c = v"

fun fmul :: "fval \<Rightarrow> rat \<Rightarrow> fval" where
  "fmul (Fin a) c = Fin (a * c)"
| "fmul NaN c = NaN"
| "fmul PInf c = (if 0 < c then PInf else if c < 0 then NInf else NaN)"
| "fmul NInf c = (if 0 < c then NInf else if c < 0 then PInf else NaN)"

section \<open>Aggregator\<close>

text \<open>
  The rows \<open>aggregate\<close> reads. The period is the column after
  \<open>pd.to_datetime(errors="coerce")\<close>: a value that is unset or cannot be parsed is
  \<open>None\<close>. A missing category or manufacturer is \<open>None\<close> as well. A registrations
  value is a finite float64, modelled as the rational number it denotes; the model adds
  these numbers without rounding, so whatever depends on the rounding of a float64 sum is
  outside it.
\<close>

record rec =
  period :: "timestamp option"
  vehicle_category :: "string option"
  manufacturer :: "string option"
  registrations :: rat

record agg_row =
  a_period :: timestamp
  a_vehicle_category :: string
  a_manufacturer :: string
  a_total :: rat

type_synonym gkey = "timestamp \<times> string \<times> string"

text \<open>
  The group of a row under \<open>groupby(["period_floor", "vehicle_category", "manufacturer"])\<close>.
  pandas drops a row from the grouping when one of its keys is null.
\<close>

definition group_key :: "(timestamp \<Rightarrow> timestamp) \<Rightarrow> rec \<Rightarrow> gkey option" where
  "group_key fl r =
     (case (period r, vehicle_category r, manufacturer r) of
        (Some p, Some c, Some m) \<Rightarrow> Some (fl p, c, m)
      | _ \<Rightarrow> None)"

definition has_keys :: "rec \<Rightarrow> bool" where
  "has_keys r \<longleftrightarrow> period r \<noteq> None \<and> vehicle_category r \<noteq> None \<and> manufacturer r \<noteq> None"

text \<open>
  \<open>groupby(keys, as_index=False).agg(total=(col, "sum"))\<close>: one row per distinct key, the
  keys in ascending order, each with the sum of the column over the rows of its group.
\<close>

definition groupby_sum :: "('r \<Rightarrow> gkey option) \<Rightarrow> ('r \<Rightarrow> rat) \<Rightarrow> 'r list \<Rightarrow> agg_row list" where
  "groupby_sum key val rs =
     map (\<lambda>k. \<lparr>a_period = fst k, a_vehicle_category = fst (snd k), a_manufacturer = snd (snd k),
               a_total = sum_list (map val (filter (\<lambda>r. key r = Some k) rs))\<rparr>)
         (sort (remdups (List.map_filter key rs)))"

definition series_key :: "agg_row \<Rightarrow> string \<times> string \<times> timestamp" where
  "series_key a = (a_vehicle_category a, a_manufacturer a, a_period a)"

definition agg_columns :: "string list" where
  "agg_columns = [''period'', ''vehicle_category'', ''manufacturer'', ''total'']"

definition period_floor :: "string \<Rightarrow> (timestamp \<Rightarrow> timestamp) option" where
  "period_floor freq =
     (if freq = ''M'' then Some floor_month
      else if freq = ''Q'' then Some floor_quarter
      else if freq = ''Y'' then Some floor_year
      else None)"

definition aggregate :: "rec frame \<Rightarrow> string \<Rightarrow> error + agg_row frame" where
  "aggregate df freq =
     (if frame_empty df \<or> ''registrations'' \<notin> set (cols df)
        then Inr \<lparr>cols = agg_columns, rows = []\<rparr>
      else if ''period'' \<notin> set (cols df) then Inl KeyError
      else case period_floor freq of
        None \<Rightarrow> Inl ValueError
      | Some fl \<Rightarrow>
          if ''vehicle_category'' \<notin> set (cols df) \<or> ''manufacturer'' \<notin> set (cols df)
            then Inl KeyError
          else Inr \<lparr>cols = agg_columns,
                    rows = sort_key series_key (groupby_sum (group_key fl) registrations (rows df))\<rparr>)"




section \<open>Growth engine\<close>

text \<open>
  \<open>Series.shift(k)\<close> moves every value \<open>k\<close> places down and fills the first \<open>k\<close>
  places with \<open>NaN\<close>; \<open>Series.pct_change(k)\<close> is \<open>s / s.shift(k) - 1\<close>, computed
  cell by cell with the division of floats. The totals are finite, so the padding of
  missing values that older pandas versions apply first changes nothing.
\<close>

definition shift :: "nat \<Rightarrow> fval list \<Rightarrow> fval list" where
  "shift k s = replicate (min k (length s)) NaN @ take (length s - k) s"

definition pct_change :: "nat \<Rightarrow> fval list \<Rightarrow> fval list" where
  "pct_change k s = map2 (\<lambda>c p. fsub (fdiv c p) 1) s (shift k s)"

text \<open>The lambda of the source: \<open>s.pct_change(k) * 100\<close>.\<close>

definition pct100 :: "nat \<Rightarrow> fval list \<Rightarrow> fval list" where
  "pct100 k s = map (\<lambda>v. fmul v 100) (pct_change k s)"

text \<open>
  \<open>df.groupby(keys)[col].transform(f)\<close>: \<open>f\<close> is applied to the column of each group,
  in the order of the frame, and every row receives the value at its place in its group.
\<close>

definition transform :: "('r \<Rightarrow> 'k) \<Rightarrow> ('r \<Rightarrow> fval) \<Rightarrow> (fval list \<Rightarrow> fval list) \<Rightarrow> 'r list \<Rightarrow> fval list" where
  "transform key val f rs =
     map (\<lambda>i. f (map val (filter (\<lambda>r. key r = key (rs ! i)) rs))
                ! length (filter (\<lambda>r. key r = key (rs ! i)) (take i rs)))
         [0..<length rs]"

definition series :: "agg_row \<Rightarrow> string \<times> string" where
  "series a = (a_vehicle_category a, a_manufacturer a)"

definition total_cell :: "agg_row \<Rightarrow> fval" where
  "total_cell a = Fin (a_total a)"

record growth_row =
  g_row :: agg_row
  yoy_pct :: fval
  qoq_pct :: fval
  pop_pct :: fval

record quarter_row =
  q_row :: agg_row
  q_qoq_pct :: fval

text \<open>
  The first component of the result of \<open>compute_growth\<close>: the input itself, without growth
  columns, after the early return, and the sorted rows with their three growth cells
  otherwise.
\<close>

datatype growth_main = Unchanged "agg_row frame" | Enriched "growth_row list"

definition quarter_key :: "agg_row \<Rightarrow> gkey option" where
  "quarter_key a = Some (floor_quarter (a_period a), a_vehicle_category a, a_manufacturer a)"

definition compute_growth ::
  "agg_row frame \<Rightarrow> string \<Rightarrow> error + growth_main \<times> quarter_row list option" where
  "compute_growth agg freq =
     (if frame_empty agg \<or> ''total'' \<notin> set (cols agg) then Inr (Unchanged agg, None)
      else if \<not> set [''vehicle_category'', ''manufacturer'', ''period''] \<subseteq> set (cols agg)
        then Inl KeyError
      else
        let df = sort_key series_key (rows agg) in
        if freq = ''M'' then
          let yoy = transform series total_cell (pct100 12) df;
              q = sort_key series_key (groupby_sum quarter_key a_total df);
              qoq = transform series total_cell (pct100 1) q
          in Inr (Enriched (map2 (\<lambda>a y. \<lparr>g_row = a, yoy_pct = y, qoq_pct = NaN, pop_pct = NaN\<rparr>) df yoy),
                  Some (map2 (\<lambda>a v. \<lparr>q_row = a, q_qoq_pct = v\<rparr>) q qoq))
        else if freq = ''Q'' then
          let yoy = transform series total_cell (pct100 4) df;
              qoq = transform series total_cell (pct100 1) df
          in Inr (Enriched (map2 (\<lambda>a (y, v). \<lparr>g_row = a, yoy_pct = y, qoq_pct = v, pop_pct = NaN\<rparr>)
                                  df (zip yoy qoq)),
                  None)
        else if freq = ''Y'' then
          let yoy = transform series total_cell (pct100 1) df
          in Inr (Enriched (map2 (\<lambda>a y. \<lparr>g_row = a, yoy_pct = y, qoq_pct = NaN, pop_pct = y\<rparr>) df yoy),
                  None)
        else Inl ValueError)"

section \<open>Record normalizer\<close>

text \<open>
  The model starts from the frame that \<open>pd.read_csv(file, dtype=str)\<close> returns for one
  file: its columns in order, each a name and its cells. A cell read from the file is a
  string or missing; the year taken from the file name is an integer. All columns of a
  frame have the same length. The two parsers of pandas are parameters of the model:
  \<open>to_numeric\<close> reads one string as a float (\<open>NaN\<close> when it cannot, as
  \<open>errors="coerce"\<close> asks), \<open>to_datetime\<close> reads a column of strings as timestamps.
\<close>

datatype cell = Str string | Num int | Null

type_synonym raw_frame = "(string \<times> cell list) list"

record source =
  file_name :: string
  table :: raw_frame

record library =
  to_numeric :: "string \<Rightarrow> fval"
  to_datetime :: "string list \<Rightarrow> timestamp option list"

text \<open>
  \<open>re.search(r'maker (\d{4})', name, re.IGNORECASE)\<close>: the leftmost place where the
  letters of \<open>maker\<close> in any case, a space and four digits follow each other; the four
  digits are the year.
\<close>

fun year_from_name :: "string \<Rightarrow> int option" where
  "year_from_name [] = None"
| "year_from_name (c # cs) =
     (if lower (take 6 (c # cs)) = ''maker '' \<and> length (take 4 (drop 6 (c # cs))) = 4
         \<and> list_all is_digit (take 4 (drop 6 (c # cs)))
      then Some (int (nat_of_digits (take 4 (drop 6 (c # cs)))))
      else year_from_name cs)"

definition nrows :: "raw_frame \<Rightarrow> nat" where
  "nrows t = (case t of [] \<Rightarrow> 0 | (n, c) # _ \<Rightarrow> length c)"

text \<open>\<open>df[name] = column\<close>: replaces the column of that name, or appends a new last column.\<close>

definition assign :: "string \<Rightarrow> cell list \<Rightarrow> raw_frame \<Rightarrow> raw_frame" where
  "assign name col t =
     (if name \<in> fst ` set t then map (\<lambda>(n, c). if n = name then (n, col) else (n, c)) t
      else t @ [(name, col)])"

definition with_file_year :: "source \<Rightarrow> raw_frame" where
  "with_file_year src =
     (case year_from_name (file_name src) of
        Some y \<Rightarrow> assign ''year'' (replicate (nrows (table src)) (Num y)) (table src)
      | None \<Rightarrow> table src)"

definition normalize_columns :: "raw_frame \<Rightarrow> raw_frame" where
  "normalize_columns t = map (\<lambda>(n, c). (lower (strip n), c)) t"

definition rename :: "string \<Rightarrow> string \<Rightarrow> raw_frame \<Rightarrow> raw_frame" where
  "rename a b t = map (\<lambda>(n, c). (if n = a then b else n, c)) t"

definition standardize :: "raw_frame \<Rightarrow> raw_frame" where
  "standardize t =
     (let t1 = normalize_columns t;
          t2 = (if ''total'' \<in> fst ` set t1 then rename ''total'' ''registrations'' t1 else t1)
      in if ''maker'' \<in> fst ` set t2 then rename ''maker'' ''manufacturer'' t2 else t2)"

text \<open>\<open>pd.to_numeric\<close> on one cell, and \<open>str\<close> of a cell (a missing cell prints as \<open>nan\<close>).\<close>

definition numeric :: "library \<Rightarrow> cell \<Rightarrow> fval" where
  "numeric L c = (case c of Str s \<Rightarrow> to_numeric L s | Num i \<Rightarrow> Fin (of_int i) | Null \<Rightarrow> NaN)"

definition str_of_cell :: "cell \<Rightarrow> string" where
  "str_of_cell c = (case c of Str s \<Rightarrow> s | Num i \<Rightarrow> str_of_int i | Null \<Rightarrow> ''nan'')"

text \<open>
  \<open>astype('Int64')\<close> accepts a missing value and a float that is a whole number, and
  raises on any other float; \<open>astype(str)\<close> then prints the integer, or \<open><NA>\<close>.
\<close>

definition is_integral :: "fval \<Rightarrow> bool" where
  "is_integral v = (case v of NaN \<Rightarrow> True | Fin q \<Rightarrow> of_int \<lfloor>q\<rfloor> = q | _ \<Rightarrow> False)"

definition int64_str :: "fval \<Rightarrow> string" where
  "int64_str v = (case v of Fin q \<Rightarrow> str_of_int \<lfloor>q\<rfloor> | _ \<Rightarrow> ''<NA>'')"

definition fillna0 :: "fval \<Rightarrow> fval" where
  "fillna0 v = (case v of NaN \<Rightarrow> Fin 0 | _ \<Rightarrow> v)"

definition clean_registration :: "library \<Rightarrow> cell \<Rightarrow> fval" where
  "clean_registration L x =
     fillna0 (to_numeric L (strip (filter (\<lambda>ch. ch \<noteq> CHR '','') (str_of_cell x))))"

record canonical =
  c_period :: "timestamp option"
  c_year :: fval
  c_vehicle_category :: string
  c_manufacturer :: cell
  c_registrations :: fval

text \<open>The body of the loop of \<open>load_and_normalize\<close>, for one file.\<close>

definition load_file :: "library \<Rightarrow> source \<Rightarrow> error + canonical list" where
  "load_file L src =
     (let t = standardize (with_file_year src); n = nrows t in
      case map_of t ''year'' of
        None \<Rightarrow> Inl KeyError
      | Some ycells \<Rightarrow>
          let year = map (numeric L) ycells in
          if \<not> list_all is_integral year then Inl TypeError
          else
            let per = to_datetime L (map (\<lambda>y. int64_str y @ ''-01-01'') year);
                regs = (case map_of t ''registrations'' of
                          Some c \<Rightarrow> map (clean_registration L) c
                        | None \<Rightarrow> replicate n (Fin 0));
                cats = (case map_of t ''vehicle_category'' of
                          Some c \<Rightarrow> map (\<lambda>x. map_category (str_of_cell x)) c
                        | None \<Rightarrow> replicate n ''OTHER'')
            in case map_of t ''manufacturer'' of
                 None \<Rightarrow> Inl KeyError
               | Some man \<Rightarrow>
                   Inr (map (\<lambda>i. \<lparr>c_period = per ! i, c_year = year ! i,
                                   c_vehicle_category = cats ! i, c_manufacturer = man ! i,
                                   c_registrations = regs ! i\<rparr>) [0..<n]))"

fun load_all :: "library \<Rightarrow> source list \<Rightarrow> error + canonical list" where
  "load_all L [] = Inr []"
| "load_all L (s # ss) =
     (case load_file L s of
        Inl e \<Rightarrow> Inl e
      | Inr r \<Rightarrow> (case load_all L ss of Inl e \<Rightarrow> Inl e | Inr rs \<Rightarrow> Inr (r @ rs)))"

text \<open>
  \<open>load_and_normalize\<close> on the files that the pattern \<open>maker *.csv\<close> finds: the frames of
  the files one after the other, and the metadata, whose granularity is always yearly.
\<close>

definition load_and_normalize :: "library \<Rightarrow> source list \<Rightarrow> error + canonical list \<times> string" where
  "load_and_normalize L files =
     (if files = [] then Inl FileNotFoundError
      else case load_all L files of Inl e \<Rightarrow> Inl e | Inr df \<Rightarrow> Inr (df, ''yearly''))"




text \<open>
  The theorems about the normalizer hold for every library. To run the model on examples,
  the following one reads a string of decimal digits, with an optional minus sign, as that
  integer, and a string \<open>YYYY-01-01\<close> with a year from 1678 to 2261 as the first day of
  that year, as pandas does; the examples use no other numbers or dates, and this library
  reads any other string as missing.
\<close>

definition plain_to_numeric :: "string \<Rightarrow> fval" where
  "plain_to_numeric s =
     (case s of
        [] \<Rightarrow> NaN
      | c # cs \<Rightarrow>
          if c = CHR ''-'' \<and> cs \<noteq> [] \<and> list_all is_digit cs then Fin (- of_nat (nat_of_digits cs))
          else if list_all is_digit (c # cs) then Fin (of_nat (nat_of_digits (c # cs)))
          else NaN)"

definition plain_to_datetime :: "string list \<Rightarrow> timestamp option list" where
  "plain_to_datetime xs =
     map (\<lambda>s. if length s = 10 \<and> list_all is_digit (take 4 s) \<and> drop 4 s = ''-01-01''
                  \<and> 1678 \<le> nat_of_digits (take 4 s) \<and> nat_of_digits (take 4 s) \<le> 2261
               then Some (int (nat_of_digits (take 4 s)), 1, 1, 0) else None) xs"

definition plain_library :: library where
  "plain_library = \<lparr>to_numeric = plain_to_numeric, to_datetime = plain_to_datetime\<rparr>"


section \<open>Example tables\<close>

text \<open>
  Five canonical records, two of them incomplete (one without period, one without
  manufacturer), and their aggregation by quarter.
\<close>

definition example_records :: "rec frame" where
  "example_records =
     \<lparr>cols = [''period'', ''year'', ''vehicle_category'', ''manufacturer'', ''registrations''],
      rows =
        [\<lparr>period = Some (2022, 5, 1, 0), vehicle_category = Some ''2W'',
            manufacturer = Some ''Acme'', registrations = 5\<rparr>,
         \<lparr>period = Some (2021, 1, 1, 0), vehicle_category = Some ''2W'',
            manufacturer = Some ''Acme'', registrations = 0\<rparr>,
         \<lparr>period = None, vehicle_category = Some ''2W'',
            manufacturer = Some ''Acme'', registrations = 7\<rparr>,
         \<lparr>period = Some (2022, 6, 20, 0), vehicle_category = Some ''2W'',
            manufacturer = Some ''Acme'', registrations = 6\<rparr>,
         \<lparr>period = Some (2022, 4, 1, 0), vehicle_category = Some ''4W'',
            manufacturer = None, registrations = 9\<rparr>]\<rparr>"

definition example_quarterly :: "agg_row frame" where
  "example_quarterly =
     \<lparr>cols = [''period'', ''vehicle_category'', ''manufacturer'', ''total''],
      rows =
        [\<lparr>a_period = (2021, 1, 1, 0), a_vehicle_category = ''2W'',
            a_manufacturer = ''Acme'', a_total = 0\<rparr>,
         \<lparr>a_period = (2022, 4, 1, 0), a_vehicle_category = ''2W'',
            a_manufacturer = ''Acme'', a_total = 11\<rparr>]\<rparr>"



section \<open>Properties of the category classifier\<close>

lemma starts_with_iff: "starts_with p s \<longleftrightarrow> (\<exists>post. s = p @ post)"
  by (induction p s rule: starts_with.induct) auto

lemma contains_occurs_in: "contains sub s \<longleftrightarrow> occurs_in sub s"
proof (induction s)
  case Nil
  then show ?case by (auto simp: occurs_in_def)
next
  case (Cons c cs)
  show ?case
  proof
    assume "contains sub (c # cs)"
    then consider "starts_with sub (c # cs)" | "contains sub cs" by auto
    then show "occurs_in sub (c # cs)"
    proof cases
      case 1
      then obtain post where "c # cs = sub @ post" by (auto simp: starts_with_iff)
      then have "c # cs = [] @ sub @ post" by simp
      then show ?thesis unfolding occurs_in_def by blast
    next
      case 2
      then obtain pre post where "cs = pre @ sub @ post"
        using Cons.IH by (auto simp: occurs_in_def)
      then have "c # cs = (c # pre) @ sub @ post" by simp
      then show ?thesis unfolding occurs_in_def by blast
    qed
  next
    assume "occurs_in sub (c # cs)"
    then obtain pre post where eq: "c # cs = pre @ sub @ post"
      unfolding occurs_in_def by blast
    show "contains sub (c # cs)"
    proof (cases pre)
      case Nil
      with eq have "starts_with sub (c # cs)" by (auto simp: starts_with_iff)
      then show ?thesis by simp
    next
      case (Cons d pre')
      with eq have "cs = pre' @ sub @ post" by simp
      then have "contains sub cs" using Cons.IH unfolding occurs_in_def by blast
      then show ?thesis by simp
    qed
  qed
qed

text \<open>
  Claim C5. The category classifier is a total function from strings to the four
  categories 2W, 3W, 4W and OTHER. It decides by substring matching on the lower-cased
  text in a fixed order of priority: two or 2w gives 2W; else three, 3w or auto gives 3W;
  else four, 4w, car or jeep gives 4W; else OTHER. Two texts that differ only in the case
  of their letters receive the same category.
\<close>

theorem map_category_total_priority:
  "map_category x = classifier_spec x
   \<and> map_category x \<in> {''2W'', ''3W'', ''4W'', ''OTHER''}
   \<and> (\<forall>y. lower y = lower x \<longrightarrow> map_category y = map_category x)"
  by (simp add: map_category_def classifier_spec_def contains_occurs_in Let_def)

theorem map_category_total_priority_witness:
  "classifier_spec ''Two Wheeler (AUTO)'' = ''2W''
   \<and> map_category ''Two Wheeler (AUTO)'' \<in> {''2W'', ''3W'', ''4W'', ''OTHER''}
   \<and> lower ''TWO wheeler (auto)'' = lower ''Two Wheeler (AUTO)''
   \<and> map_category ''TWO wheeler (auto)'' = map_category ''Two Wheeler (AUTO)''"
proof -
  have run: "map_category ''Two Wheeler (AUTO)'' = ''2W''"
    by code_simp
  have same: "lower ''TWO wheeler (auto)'' = lower ''Two Wheeler (AUTO)''"
    by code_simp
  from map_category_total_priority [of "''Two Wheeler (AUTO)''"] run same
  show ?thesis by auto
qed

section \<open>Properties of the aggregator\<close>

lemma example_quarterly_run: "aggregate example_records ''Q'' = Inr example_quarterly"
  by code_simp


lemma aggregate_cases:
  assumes "aggregate df freq = Inr out"
  obtains (early) "frame_empty df \<or> ''registrations'' \<notin> set (cols df)"
      "out = \<lparr>cols = agg_columns, rows = []\<rparr>"
  | (main) fl where "\<not> frame_empty df" "''registrations'' \<in> set (cols df)"
      "''period'' \<in> set (cols df)" "''vehicle_category'' \<in> set (cols df)"
      "''manufacturer'' \<in> set (cols df)" "period_floor freq = Some fl"
      "out = \<lparr>cols = agg_columns,
              rows = sort_key series_key (groupby_sum (group_key fl) registrations (rows df))\<rparr>"
  using assms unfolding aggregate_def
  by (auto split: if_splits option.splits)

lemma groupby_sum_filter:
  assumes "\<And>r. \<not> P r \<Longrightarrow> key r = None"
  shows "groupby_sum key val (filter P rs) = groupby_sum key val rs"
proof -
  have keys: "List.map_filter key (filter P rs) = List.map_filter key rs"
    using assms by (induction rs) (auto split: option.splits)
  have grp: "filter (\<lambda>r. key r = Some k) (filter P rs) = filter (\<lambda>r. key r = Some k) rs" for k
    using assms by (induction rs) auto
  show ?thesis unfolding groupby_sum_def keys grp ..
qed

lemma groupby_sum_Nil: "groupby_sum key val [] = []"
  by (simp add: groupby_sum_def)

text \<open>
  Claim C10. A row whose period is unset or could not be parsed is left out of the output
  of \<open>aggregate\<close> altogether: the result is the one that the table without these rows
  gives, so such a row forms no group and adds to no total.
\<close>

theorem aggregate_excludes_unset_period:
  assumes "aggregate df freq = Inr out"
  shows "aggregate (df\<lparr>rows := filter (\<lambda>r. period r \<noteq> None) (rows df)\<rparr>) freq = Inr out"
  using assms
proof (cases rule: aggregate_cases)
  case early
  then show ?thesis by (auto simp: aggregate_def frame_empty_def)
next
  case (main fl)
  let ?P = "\<lambda>r. period r \<noteq> None"
  have same: "groupby_sum (group_key fl) registrations (filter ?P (rows df))
      = groupby_sum (group_key fl) registrations (rows df)"
    by (rule groupby_sum_filter) (auto simp: group_key_def split: option.splits)
  show ?thesis
  proof (cases "filter ?P (rows df) = []")
    case True
    with same have "groupby_sum (group_key fl) registrations (rows df) = []"
      by (simp add: groupby_sum_Nil)
    with main True show ?thesis by (simp add: aggregate_def frame_empty_def)
  next
    case False
    with main same show ?thesis by (simp add: aggregate_def frame_empty_def)
  qed
qed

theorem aggregate_excludes_unset_period_witness:
  "aggregate example_records ''Q'' = Inr example_quarterly
   \<and> filter (\<lambda>r. period r = None) (rows example_records)
       = [\<lparr>period = None, vehicle_category = Some ''2W'',
            manufacturer = Some ''Acme'', registrations = 7\<rparr>]
   \<and> aggregate (example_records\<lparr>rows := filter (\<lambda>r. period r \<noteq> None) (rows example_records)\<rparr>) ''Q''
       = Inr example_quarterly"
proof -
  have unset: "filter (\<lambda>r. period r = None) (rows example_records)
      = [\<lparr>period = None, vehicle_category = Some ''2W'',
           manufacturer = Some ''Acme'', registrations = 7\<rparr>]"
    by (simp add: example_records_def)
  from aggregate_excludes_unset_period [OF example_quarterly_run] unset
  show ?thesis using example_quarterly_run by simp
qed










section \<open>Properties of the record normalizer\<close>



































text \<open>
  Claim C3. The year of a file should come from its name only when the file has no year
  column, and a file with neither should still be loaded, its year unset. The loop does
  neither: a year in the file name replaces the year column of the file (2019 becomes
  2021 below), and a file without year column whose name carries no year raises a
  \<open>KeyError\<close>, which ends the whole load.
\<close>

theorem load_year_from_file_name:
  "load_and_normalize plain_library
     [\<lparr>file_name = ''maker 2021.csv'',
       table = [(''year'', [Str ''2019'']), (''maker'', [Str ''Honda'']), (''total'', [Str ''5''])]\<rparr>]
     = Inr ([\<lparr>c_period = Some (2021, 1, 1, 0), c_year = Fin 2021, c_vehicle_category = ''OTHER'',
              c_manufacturer = Str ''Honda'', c_registrations = Fin 5\<rparr>], ''yearly'')
   \<and> load_and_normalize plain_library
     [\<lparr>file_name = ''maker abc.csv'',
       table = [(''maker'', [Str ''Honda'']), (''total'', [Str ''5''])]\<rparr>]
     = Inl KeyError"
  by code_simp

section \<open>Properties of the growth engine\<close>

text \<open>
  Claim C8, as amended. On a table that is not empty and has the registrations column and
  the period column (for \<open>compute_growth\<close>: the total column and the three key columns),
  a granularity other than M, Q and Y fails with the \<open>ValueError\<close> of an unsupported
  frequency. On an empty table, or one without the registrations (total) column, the
  call returns the empty table (the input unchanged) for every granularity, and a table
  that lacks a key column fails with a \<open>KeyError\<close> first.
\<close>

theorem unsupported_frequency:
  assumes "freq \<noteq> ''M''" and "freq \<noteq> ''Q''" and "freq \<noteq> ''Y''"
  shows "aggregate df freq =
           (if frame_empty df \<or> ''registrations'' \<notin> set (cols df)
              then Inr \<lparr>cols = agg_columns, rows = []\<rparr>
            else if ''period'' \<notin> set (cols df) then Inl KeyError
            else Inl ValueError)
       \<and> compute_growth agg freq =
           (if frame_empty agg \<or> ''total'' \<notin> set (cols agg) then Inr (Unchanged agg, None)
            else if \<not> set [''vehicle_category'', ''manufacturer'', ''period''] \<subseteq> set (cols agg)
              then Inl KeyError
            else Inl ValueError)"
  using assms by (simp add: aggregate_def compute_growth_def period_floor_def Let_def)

theorem unsupported_frequency_witness:
  "''W'' \<noteq> ''M'' \<and> ''W'' \<noteq> ''Q'' \<and> ''W'' \<noteq> ''Y''
   \<and> aggregate example_records ''W'' = Inl ValueError
   \<and> compute_growth example_quarterly ''W'' = Inl ValueError"
proof -
  have f: "''W'' \<noteq> ''M''" "''W'' \<noteq> ''Q''" "''W'' \<noteq> ''Y''"
    by simp_all
  have shape: "\<not> frame_empty example_records" "''registrations'' \<in> set (cols example_records)"
    "''period'' \<in> set (cols example_records)"
    "\<not> frame_empty example_quarterly" "''total'' \<in> set (cols example_quarterly)"
    "set [''vehicle_category'', ''manufacturer'', ''period''] \<subseteq> set (cols example_quarterly)"
    by (simp_all add: frame_empty_def example_records_def example_quarterly_def)
  from unsupported_frequency [OF f, of example_records example_quarterly] shape f
  show ?thesis by simp
qed

theorem unsupported_frequency_counterexample:
  "aggregate \<lparr>cols = [''period'', ''vehicle_category'', ''manufacturer'', ''registrations''],
              rows = []\<rparr> ''W''
     = Inr \<lparr>cols = [''period'', ''vehicle_category'', ''manufacturer'', ''total''], rows = []\<rparr>
   \<and> compute_growth \<lparr>cols = [''period'', ''vehicle_category'', ''manufacturer'', ''total''],
                     rows = []\<rparr> ''W''
     = Inr (Unchanged \<lparr>cols = [''period'', ''vehicle_category'', ''manufacturer'', ''total''],
                       rows = []\<rparr>, None)"
  by (simp add: aggregate_def compute_growth_def frame_empty_def agg_columns_def)

lemma shift_nth:
  assumes "i < length s"
  shows "shift k s ! i = (if i < k then NaN else s ! (i - k))"
  using assms by (auto simp: shift_def nth_append min_def)

lemma length_shift: "length (shift k s) = length s"
  by (simp add: shift_def)

lemma fdiv_NaN: "fdiv c NaN = NaN"
  by (cases c) simp_all

lemma pct100_nth:
  assumes "i < length s"
  shows "pct100 k s ! i =
     (if i < k then NaN else fmul (fsub (fdiv (s ! i) (s ! (i - k))) 1) 100)"
  using assms
  by (simp add: pct100_def pct_change_def length_shift shift_nth fdiv_NaN)

lemma pct100_finite:
  assumes "i < length s" and "k \<le> i" and "s ! i = Fin a" and "s ! (i - k) = Fin b"
  shows "pct100 k s ! i =
     (if b \<noteq> 0 then Fin ((a / b - 1) * 100) else if 0 < a then PInf else if a < 0 then NInf else NaN)"
  using assms by (simp add: pct100_nth)

text \<open>
  Claim C1. A growth cell should be null whenever its denominator is zero. Within a series
  the cell at a place with a row \<open>k\<close> places before is \<open>(total[i] / total[i-k] - 1) * 100\<close>
  when that total is not zero (lemma \<open>pct100_finite\<close>), and null when there is no such
  row; but a zero denominator under a nonzero total gives an infinite cell: below, the
  year 2022 follows a year with total 0, and its \<open>yoy_pct\<close> and \<open>pop_pct\<close> are infinite.
\<close>

theorem compute_growth_zero_denominator:
  "compute_growth
     \<lparr>cols = [''period'', ''vehicle_category'', ''manufacturer'', ''total''],
      rows = [\<lparr>a_period = (2021, 1, 1, 0), a_vehicle_category = ''2W'',
                a_manufacturer = ''Acme'', a_total = 0\<rparr>,
              \<lparr>a_period = (2022, 1, 1, 0), a_vehicle_category = ''2W'',
                a_manufacturer = ''Acme'', a_total = 5\<rparr>]\<rparr> ''Y''
   = Inr (Enriched
            [\<lparr>g_row = \<lparr>a_period = (2021, 1, 1, 0), a_vehicle_category = ''2W'',
                         a_manufacturer = ''Acme'', a_total = 0\<rparr>,
               yoy_pct = NaN, qoq_pct = NaN, pop_pct = NaN\<rparr>,
             \<lparr>g_row = \<lparr>a_period = (2022, 1, 1, 0), a_vehicle_category = ''2W'',
                         a_manufacturer = ''Acme'', a_total = 5\<rparr>,
               yoy_pct = PInf, qoq_pct = NaN, pop_pct = PInf\<rparr>],
          None)"
  by code_simp

end
